theory Spec2Isabelle
  imports Complex_Main "HOL-Library.Sublist"
begin

section \<open>Data model\<close>

text \<open>
  Python floats and JavaScript numbers are modelled as reals. The thresholds the code
  compares with (ages of 1, 3, 7, 14, 30 days; index values 25, 45, 55, 75) are exactly
  representable, timestamps have a resolution of one microsecond, and the two rounded
  divisions that turn microseconds into days are monotone and exact at whole days, so an
  age is on the same side of a threshold in floating point as it is in the reals. The
  power \<^verbatim>\<open>base ** 1.5\<close> is the real power. Strings are lists of code points below
  256.
\<close>

datatype error = TypeError | ClassifierFailure

text \<open>A value of a news record: JSON null or a JSON string.\<close>

datatype json = JNull | JStr string

type_synonym article = "string \<rightharpoonup> json"

text \<open>
  A parsed \<^verbatim>\<open>datetime\<close>: naive (no offset) or aware; the number is the instant in
  microseconds since the epoch (for a naive value, of its wall-clock reading).
\<close>

datatype datetime = Naive int | Aware int

record SentimentScores =
  positive :: real
  negative :: real
  neutral :: real

record DocumentSentiment =
  doc_source :: string
  doc_id :: string
  doc_timestamp :: string
  doc_text :: string
  doc_sentiment :: SentimentScores

record IndexComponents =
  nw :: real
  nw_norm :: real
  gsi :: real
  classification :: string

section \<open>Python built-ins used by the code\<close>

text \<open>\<^verbatim>\<open>bool(v)\<close>: null and the empty string are false.\<close>

fun truthy :: "json \<Rightarrow> bool" where
  "truthy JNull = False"
| "truthy (JStr s) = (s \<noteq> [])"

text \<open>\<^verbatim>\<open>str(v)\<close>\<close>

fun str :: "json \<Rightarrow> string" where
  "str JNull = ''None''"
| "str (JStr s) = s"

text \<open>\<^verbatim>\<open>d.get(key, default)\<close>\<close>

definition get_default :: "article \<Rightarrow> string \<Rightarrow> json \<Rightarrow> json" where
  "get_default d key dflt = (case d key of None \<Rightarrow> dflt | Some v \<Rightarrow> v)"

text \<open>\<^verbatim>\<open>d.get(key) or ""\<close>\<close>

definition get_or_empty :: "article \<Rightarrow> string \<Rightarrow> string" where
  "get_or_empty d key =
     (case d key of None \<Rightarrow> [] | Some v \<Rightarrow> if truthy v then str v else [])"

text \<open>\<^verbatim>\<open>sep.join(parts)\<close>\<close>

fun join :: "string \<Rightarrow> string list \<Rightarrow> string" where
  "join sep [] = []"
| "join sep [p] = p"
| "join sep (p # q # ps) = p @ sep @ join sep (q # ps)"

text \<open>\<^verbatim>\<open>c.isspace()\<close> on the code points below 256.\<close>

definition isspace :: "char \<Rightarrow> bool" where
  "isspace c = (c \<in> set [CHR 0x09, CHR 0x0A, CHR 0x0B, CHR 0x0C, CHR 0x0D,
     CHR 0x1C, CHR 0x1D, CHR 0x1E, CHR 0x1F, CHR 0x20, CHR 0x85, CHR 0xA0])"

text \<open>\<^verbatim>\<open>s.strip()\<close>\<close>

definition strip :: "string \<Rightarrow> string" where
  "strip s = rev (dropWhile isspace (rev (dropWhile isspace s)))"

text \<open>
  \<^verbatim>\<open>s.lower()\<close> on the code points below 256: A-Z and the Latin-1 capitals
  0xC0-0xDE (but the multiplication sign 0xD7) move up by 32.
\<close>

definition lower_char :: "char \<Rightarrow> char" where
  "lower_char c =
     (let n = (of_char c :: nat)
      in if (65 \<le> n \<and> n \<le> 90) \<or> (192 \<le> n \<and> n \<le> 222 \<and> n \<noteq> 215)
         then char_of (n + 32) else c)"

definition lower :: "string \<Rightarrow> string" where
  "lower s = map lower_char s"

text \<open>\<^verbatim>\<open>k in txt\<close> for strings: \<open>k\<close> starts at some position of \<open>txt\<close>.\<close>

fun str_in :: "string \<Rightarrow> string \<Rightarrow> bool" where
  "str_in k [] = (k = [])"
| "str_in k (c # cs) = (prefix k (c # cs) \<or> str_in k cs)"

text \<open>\<^verbatim>\<open>s.replace("Z", "+00:00")\<close>\<close>

definition replace_Z :: "string \<Rightarrow> string" where
  "replace_Z s = concat (map (\<lambda>c. if c = CHR ''Z'' then ''+00:00'' else [c]) s)"

section \<open>processing/sentiment.py\<close>

definition HIGH_IMPACT_KEYWORDS :: "string list" where
  "HIGH_IMPACT_KEYWORDS =
     [''powell'', ''federal reserve'', ''fed'', ''rate hike'', ''rate cut'',
      ''rate hikes'', ''rate cuts'', ''interest rates'', ''monetary policy'', ''qe'',
      ''quantitative easing'', ''taper'', ''central bank'', ''central banks'',
      ''inflation shock'', ''stagflation'', ''recession'', ''crisis'',
      ''credit crunch'', ''de-dollarization'', ''brics'']"

definition extract_news_text :: "article \<Rightarrow> string" where
  "extract_news_text article =
     (let parts = [get_or_empty article ''title'',
                   get_or_empty article ''description'',
                   get_or_empty article ''content'']
      in join [CHR 0x20, CHR 0x0A] (filter (\<lambda>p. p \<noteq> []) parts))"

text \<open>
  \<^verbatim>\<open>max(0.0, (now - ts).total_seconds() / 86400.0)\<close> for two aware instants given in
  microseconds.
\<close>

definition age_days :: "int \<Rightarrow> int \<Rightarrow> real" where
  "age_days now ts = max 0 (real_of_int (now - ts) / 1000000 / 86400)"

text \<open>The chain of comparisons at the end of \<^verbatim>\<open>_recency_weight\<close>.\<close>

definition decay :: "real \<Rightarrow> real" where
  "decay a =
     (if a \<le> 1 then 1
      else if a \<le> 3 then 0.8
      else if a \<le> 7 then 0.6
      else if a \<le> 14 then 0.3
      else if a \<le> 30 then 0.1
      else 0)"

text \<open>
  \<^verbatim>\<open>_recency_weight(ts_str)\<close>. The library parser \<^verbatim>\<open>datetime.fromisoformat\<close> and the
  clock reading \<^verbatim>\<open>datetime.now(timezone.utc)\<close> are parameters. Only the parse is inside
  the \<^verbatim>\<open>try\<close>: subtracting a naive value from the aware \<open>now\<close> raises \<^verbatim>\<open>TypeError\<close>.
\<close>

definition recency_weight ::
  "(string \<Rightarrow> datetime option) \<Rightarrow> int \<Rightarrow> json \<Rightarrow> error + real" where
  "recency_weight fromisoformat now ts_str =
     (if \<not> truthy ts_str then Inr 0
      else case fromisoformat (replace_Z (str ts_str)) of
             None \<Rightarrow> Inr 0
           | Some (Naive t) \<Rightarrow> Inl TypeError
           | Some (Aware t) \<Rightarrow> Inr (decay (age_days now t)))"

definition impact_weight :: "SentimentScores \<Rightarrow> string \<Rightarrow> real" where
  "impact_weight score text =
     (let margin = \<bar>positive score - negative score\<bar>;
          base = max margin (1 / 1000);
          txt = lower text;
          impact_boost = (if list_ex (\<lambda>k. str_in k txt) HIGH_IMPACT_KEYWORDS then 3 else 1);
          gamma = 3 / 2
      in (base powr gamma) * impact_boost)"

text \<open>
  The first loop of \<^verbatim>\<open>analyze_documents\<close>: the records kept, each with its recency
  weight and its text, in the order of the snapshot. \<open>now_at i\<close> is the clock reading
  taken while record \<open>i\<close> is processed. An exception raised by \<^verbatim>\<open>_recency_weight\<close>
  leaves the loop and the function.
\<close>

fun select_news ::
  "(string \<Rightarrow> datetime option) \<Rightarrow> (nat \<Rightarrow> int) \<Rightarrow> nat \<Rightarrow> article list \<Rightarrow>
   error + (article \<times> real \<times> string) list" where
  "select_news fromisoformat now_at i [] = Inr []"
| "select_news fromisoformat now_at i (n # ns) =
     (case recency_weight fromisoformat (now_at i) (get_default n ''timestamp'' (JStr [])) of
        Inl e \<Rightarrow> Inl e
      | Inr w \<Rightarrow>
          (case select_news fromisoformat now_at (Suc i) ns of
             Inl e \<Rightarrow> Inl e
           | Inr rest \<Rightarrow>
               if w \<le> 0 then Inr rest
               else let text = extract_news_text n
                    in if strip text = [] then Inr rest else Inr ((n, w, text) # rest)))"

text \<open>The second loop: one effective weight per element of the three-way \<^verbatim>\<open>zip\<close>.\<close>

definition effective_weights ::
  "SentimentScores list \<Rightarrow> real list \<Rightarrow> string list \<Rightarrow> real list" where
  "effective_weights news_scores recency_weights texts =
     map (\<lambda>(s, w, text). w * impact_weight s text)
       (zip news_scores (zip recency_weights texts))"

text \<open>The third loop: one output document per element of the two-way \<^verbatim>\<open>zip\<close>.\<close>

definition news_docs :: "article list \<Rightarrow> SentimentScores list \<Rightarrow> DocumentSentiment list" where
  "news_docs news_items news_scores =
     map (\<lambda>(raw, s).
            \<lparr>doc_source = ''news'',
             doc_id = str (get_default raw ''url'' (JStr [])),
             doc_timestamp = str (get_default raw ''timestamp'' (JStr [])),
             doc_text = extract_news_text raw,
             doc_sentiment = s\<rparr>)
       (zip news_items news_scores)"

text \<open>The dictionary \<^verbatim>\<open>analyze_documents\<close> returns, flattened.\<close>

record result =
  result_timestamp :: int
  result_count :: nat
  result_documents :: "DocumentSentiment list"
  result_nw :: real
  result_nw_norm :: real
  result_gsi :: real
  result_classification :: string

text \<open>
  One run of \<^verbatim>\<open>analyze_documents\<close>: the arguments of every call of the external
  classifier \<^verbatim>\<open>analyze_batch\<close>, the arguments of every call of \<^verbatim>\<open>compute_index\<close>, and
  the returned dictionary or the exception that ended the run.
\<close>

record run =
  batch_calls :: "string list list"
  index_calls :: "(SentimentScores list \<times> real list) list"
  outcome :: "error + result"

text \<open>
  \<^verbatim>\<open>analyze_documents()\<close> on the records of \<^verbatim>\<open>news.json\<close>. The classifier
  \<^verbatim>\<open>analyze_batch\<close> (models/finbert_gold.py) and \<^verbatim>\<open>compute_index\<close>
  (processing/index_calc.py) are imported from modules outside the sources and are
  parameters; the classifier may raise.
\<close>

definition analyze_documents ::
  "(string \<Rightarrow> datetime option) \<Rightarrow> (nat \<Rightarrow> int) \<Rightarrow>
   (string list \<Rightarrow> error + SentimentScores list) \<Rightarrow>
   (SentimentScores list \<Rightarrow> real list \<Rightarrow> IndexComponents) \<Rightarrow> article list \<Rightarrow> run" where
  "analyze_documents fromisoformat now_at analyze_batch compute_index news_raw =
     (case select_news fromisoformat now_at 0 news_raw of
        Inl e \<Rightarrow> \<lparr>batch_calls = [], index_calls = [], outcome = Inl e\<rparr>
      | Inr kept \<Rightarrow>
          let news_items = map fst kept;
              recency_weights = map (fst \<circ> snd) kept;
              texts = map (snd \<circ> snd) kept;
              calls = (if texts \<noteq> [] then [texts] else [])
          in case (if texts \<noteq> [] then analyze_batch texts else Inr []) of
               Inl e \<Rightarrow> \<lparr>batch_calls = calls, index_calls = [], outcome = Inl e\<rparr>
             | Inr news_scores \<Rightarrow>
                 let weights = effective_weights news_scores recency_weights texts;
                     docs = news_docs news_items news_scores;
                     components = compute_index news_scores weights
                 in \<lparr>batch_calls = calls,
                     index_calls = [(news_scores, weights)],
                     outcome = Inr
                       \<lparr>result_timestamp = now_at (length news_raw),
                        result_count = length docs,
                        result_documents = docs,
                        result_nw = nw components,
                        result_nw_norm = nw_norm components,
                        result_gsi = gsi components,
                        result_classification = classification components\<rparr>\<rparr>)"

section \<open>processing/index_calc.py\<close>

text \<open>
  Modelled from the spec: \<^verbatim>\<open>classify\<close> of processing/index_calc.py is not among the
  sources. It follows the table of section 4.5 of the specification: [0, 25) Extremely
  Bearish, [25, 45) Bearish, [45, 55) Neutral, [55, 75) Bullish, [75, 100] Extremely
  Bullish.
\<close>

definition classify :: "real \<Rightarrow> string" where
  "classify x =
     (if x < 25 then ''Extremely Bearish''
      else if x < 45 then ''Bearish''
      else if x < 55 then ''Neutral''
      else if x < 75 then ''Bullish''
      else ''Extremely Bullish'')"

text \<open>
  Modelled from the spec: \<^verbatim>\<open>compute_index\<close> of processing/index_calc.py is not among
  the sources. It follows section 4.4 of the specification: \<open>nw\<close> is the sum of
  weight times (positive minus negative), accumulated left to right; an explicit branch
  returns the neutral default for empty input or a total weight of about zero; otherwise
  the weighted average is mapped to 50 + 50 times the average, clamped to [0, 100], and
  \<open>gsi\<close> equals \<open>nw_norm\<close>. The specification does not fix how close to zero the
  total weight must be: the tolerance is the parameter \<open>tol\<close>.
\<close>

definition compute_index ::
  "real \<Rightarrow> SentimentScores list \<Rightarrow> real list \<Rightarrow> IndexComponents" where
  "compute_index tol scores weights =
     (let pairs = zip scores weights;
          net = foldl (\<lambda>acc (s, w). acc + w * (positive s - negative s)) 0 pairs;
          total = foldl (\<lambda>acc (s, w). acc + w) 0 pairs
      in if pairs = [] \<or> \<bar>total\<bar> \<le> tol
         then \<lparr>nw = 0, nw_norm = 50, gsi = 50, classification = ''Neutral''\<rparr>
         else let norm = min 100 (max 0 (50 + 50 * (net / total)))
              in \<lparr>nw = net, nw_norm = norm, gsi = norm, classification = classify norm\<rparr>)"

section \<open>processing/dashboard.py\<close>

text \<open>The script's \<^verbatim>\<open>classifyGsi\<close>.\<close>

definition classifyGsi :: "real \<Rightarrow> string" where
  "classifyGsi g =
     (if g < 25 then ''Extremely Bearish''
      else if g < 45 then ''Bearish''
      else if g < 55 then ''Neutral''
      else if g < 75 then ''Bullish''
      else ''Extremely Bullish'')"

text \<open>The band legend of the page: the label and the range printed under the gauge.\<close>

definition band_legend :: "(string \<times> real \<times> real) list" where
  "band_legend =
     [(''Extreme Bearish'', 0, 25),
      (''Bearish'', 25, 45),
      (''Neutral'', 45, 55),
      (''Bullish'', 55, 75),
      (''Extreme Bullish'', 75, 100)]"

section \<open>The filter, as the specification words it\<close>

text \<open>
  Record \<open>n\<close>, processed at position \<open>j\<close>, enters scoring when its recency weight is
  strictly positive and its extracted text is not blank.
\<close>

definition survives_filter ::
  "(string \<Rightarrow> datetime option) \<Rightarrow> (nat \<Rightarrow> int) \<Rightarrow> nat \<times> article \<Rightarrow> bool" where
  "survives_filter fromisoformat now_at jn =
     ((case recency_weight fromisoformat (now_at (fst jn))
              (get_default (snd jn) ''timestamp'' (JStr [])) of
         Inl e \<Rightarrow> False
       | Inr w \<Rightarrow> 0 < w) \<and>
      strip (extract_news_text (snd jn)) \<noteq> [])"

section \<open>Concrete environments\<close>

text \<open>
  The values of \<^verbatim>\<open>datetime.fromisoformat\<close> at three strings: midnight of 1 January
  2024 with the offset of UTC (aware) and without an offset (naive), and midnight of 22
  December 2023, ten days earlier, with the offset of UTC.
\<close>

definition sample_fromisoformat :: "string \<Rightarrow> datetime option" where
  "sample_fromisoformat s =
     (if s = ''2024-01-01T00:00:00+00:00'' then Some (Aware 1704067200000000)
      else if s = ''2024-01-01T00:00:00'' then Some (Naive 1704067200000000)
      else if s = ''2023-12-22T00:00:00+00:00'' then Some (Aware 1703203200000000)
      else None)"

text \<open>One day in microseconds, and a clock that reads noon of 1 January 2024.\<close>

definition day :: int where
  "day = 86400000000"

definition noon :: "nat \<Rightarrow> int" where
  "noon i = 1704067200000000 + 43200000000"

text \<open>
  A fresh record with a macro headline, a record without a timestamp, and a record with
  a macro headline that is ten and a half days old at noon of 1 January 2024.
\<close>

definition fed_article :: article where
  "fed_article =
     [''title'' \<mapsto> JStr ''Fed signals rate cut'',
      ''timestamp'' \<mapsto> JStr ''2024-01-01T00:00:00Z'',
      ''url'' \<mapsto> JStr ''https://example.org/fed'']"

definition undated_article :: article where
  "undated_article =
     [''title'' \<mapsto> JStr ''local mining update'',
      ''url'' \<mapsto> JStr ''https://example.org/mining'']"

definition old_article :: article where
  "old_article =
     [''title'' \<mapsto> JStr ''Powell warns of recession'',
      ''timestamp'' \<mapsto> JStr ''2023-12-22T00:00:00Z'',
      ''url'' \<mapsto> JStr ''https://example.org/powell'']"

text \<open>
  Four classifiers: one that scores every text as fully positive, one that returns no
  score at all, one that returns two scores for every text, and one that raises.
\<close>

definition bullish_batch :: "string list \<Rightarrow> error + SentimentScores list" where
  "bullish_batch texts = Inr (map (\<lambda>t. \<lparr>positive = 1, negative = 0, neutral = 0\<rparr>) texts)"

definition silent_batch :: "string list \<Rightarrow> error + SentimentScores list" where
  "silent_batch texts = Inr []"

definition eager_batch :: "string list \<Rightarrow> error + SentimentScores list" where
  "eager_batch texts =
     Inr (map (\<lambda>t. \<lparr>positive = 1, negative = 0, neutral = 0\<rparr>) (texts @ texts))"

definition failing_batch :: "string list \<Rightarrow> error + SentimentScores list" where
  "failing_batch texts = Inl ClassifierFailure"

section \<open>Evaluation of the concrete environments\<close>

lemmas eval_chars = lower_def lower_char_def char_of_def bit_Suc_0_iff strip_def isspace_def

lemma fed_timestamp:
  "get_default fed_article ''timestamp'' (JStr []) = JStr ''2024-01-01T00:00:00Z''"
  by (simp add: get_default_def fed_article_def)

lemma fed_url: "get_default fed_article ''url'' (JStr []) = JStr ''https://example.org/fed''"
  by (simp add: get_default_def fed_article_def)

lemma fed_text: "extract_news_text fed_article = ''Fed signals rate cut''"
  by (simp add: extract_news_text_def get_or_empty_def fed_article_def)

lemma fed_strip: "strip ''Fed signals rate cut'' = ''Fed signals rate cut''"
  by (simp add: strip_def isspace_def)

lemma undated_timestamp: "get_default undated_article ''timestamp'' (JStr []) = JStr []"
  by (simp add: get_default_def undated_article_def)

lemma fed_parse:
  "sample_fromisoformat (replace_Z ''2024-01-01T00:00:00Z'') = Some (Aware 1704067200000000)"
  by (simp add: replace_Z_def sample_fromisoformat_def)

lemma fed_recency:
  "recency_weight sample_fromisoformat (noon i) (JStr ''2024-01-01T00:00:00Z'') = Inr 1"
  by (simp add: recency_weight_def fed_parse noon_def age_days_def decay_def)

lemma undated_recency: "recency_weight sample_fromisoformat (noon i) (JStr []) = Inr 0"
  by (simp add: recency_weight_def)

lemma fed_impact:
  "impact_weight \<lparr>positive = 1, negative = 0, neutral = 0\<rparr> ''Fed signals rate cut'' = 3"
  by (simp add: impact_weight_def eval_chars HIGH_IMPACT_KEYWORDS_def)

lemmas eval_env = fed_timestamp fed_url fed_text fed_strip undated_timestamp fed_recency
  undated_recency fed_impact

section \<open>Auxiliary facts\<close>

lemma str_in_sublist: "str_in k t \<longleftrightarrow> sublist k t"
  by (induction t) (auto simp: sublist_Cons_right)

lemma decay_mono: "a \<le> b \<Longrightarrow> decay b \<le> decay a"
  by (simp add: decay_def)

lemma decay_values: "decay a \<in> {1, 0.8, 0.6, 0.3, 0.1, 0}"
  by (simp add: decay_def)

lemma decay_bounds: "0 \<le> decay a \<and> decay a \<le> 1"
  by (simp add: decay_def)

lemma recency_weight_bounds:
  "recency_weight fromisoformat now ts = Inr w \<Longrightarrow> 0 \<le> w \<and> w \<le> 1"
  using decay_bounds
  by (auto simp: recency_weight_def split: if_splits option.splits datetime.splits)

lemma recency_weight_missing:
  "\<not> truthy ts \<Longrightarrow> recency_weight fromisoformat now ts = Inr 0"
  by (simp add: recency_weight_def)

lemma recency_weight_unparsable:
  "fromisoformat (replace_Z (str ts)) = None \<Longrightarrow> recency_weight fromisoformat now ts = Inr 0"
  by (simp add: recency_weight_def)

lemma recency_weight_naive:
  "truthy ts \<Longrightarrow> fromisoformat (replace_Z (str ts)) = Some (Naive t) \<Longrightarrow>
   recency_weight fromisoformat now ts = Inl TypeError"
  by (simp add: recency_weight_def)

lemma age_days_future: "now \<le> t \<Longrightarrow> age_days now t = 0"
  by (simp add: age_days_def divide_nonpos_pos)

lemma recency_weight_aware:
  "truthy ts \<Longrightarrow> fromisoformat (replace_Z (str ts)) = Some (Aware t) \<Longrightarrow>
   recency_weight fromisoformat now ts = Inr (decay (age_days now t))"
  by (simp add: recency_weight_def)

lemma impact_weight_pos: "0 < impact_weight s t"
  by (simp add: impact_weight_def Let_def)

lemma impact_weight_le_3:
  assumes "0 \<le> positive s" "positive s \<le> 1" "0 \<le> negative s" "negative s \<le> 1"
  shows "impact_weight s t \<le> 3"
proof -
  let ?b = "max \<bar>positive s - negative s\<bar> (1 / 1000)"
  have "?b \<le> 1" using assms by (simp add: abs_le_iff)
  moreover have "0 < ?b" by simp
  ultimately have "?b powr (3 / 2) \<le> 1"
    by (metis powr_mono2 powr_one_eq_one less_eq_real_def divide_nonneg_nonneg zero_le_numeral)
  then show ?thesis by (simp add: impact_weight_def Let_def)
qed

lemma foldl_total:
  "foldl (\<lambda>acc (s, w). acc + w) a pairs = a + sum_list (map snd pairs)"
  for a :: real
  by (induction pairs arbitrary: a) (auto simp: algebra_simps)

subsection \<open>The loops of analyze_documents\<close>

lemma strip_Nil: "strip [] = []"
  by (simp add: strip_def)

lemma select_news_Cons:
  "recency_weight fromisoformat (now_at i) (get_default a ''timestamp'' (JStr [])) = Inr w \<Longrightarrow>
   select_news fromisoformat now_at (Suc i) ns = Inr rest \<Longrightarrow>
   select_news fromisoformat now_at i (a # ns) =
     Inr (if w \<le> 0 \<or> strip (extract_news_text a) = [] then rest
          else (a, w, extract_news_text a) # rest)"
  by (simp add: Let_def)

lemma select_news_kept:
  "select_news fromisoformat now_at i ns = Inr kept \<Longrightarrow> (n, w, t) \<in> set kept \<Longrightarrow>
   n \<in> set ns \<and> 0 < w \<and> w \<le> 1 \<and> t = extract_news_text n \<and> strip t \<noteq> []"
proof (induction ns arbitrary: i kept)
  case Nil
  then show ?case by simp
next
  case (Cons a ns)
  from Cons.prems(1) obtain w' rest where
    w': "recency_weight fromisoformat (now_at i) (get_default a ''timestamp'' (JStr [])) = Inr w'"
    and rest: "select_news fromisoformat now_at (Suc i) ns = Inr rest"
    by (auto split: sum.splits)
  have bounds: "0 \<le> w' \<and> w' \<le> 1" using w' by (rule recency_weight_bounds)
  show ?case
  proof (cases "w' \<le> 0 \<or> strip (extract_news_text a) = []")
    case True
    then have "kept = rest" using Cons.prems(1) select_news_Cons [OF w' rest] by simp
    then show ?thesis using Cons.IH [OF rest] Cons.prems(2) by auto
  next
    case False
    then have "kept = (a, w', extract_news_text a) # rest"
      using Cons.prems(1) select_news_Cons [OF w' rest] by simp
    then show ?thesis using Cons.IH [OF rest] Cons.prems(2) False bounds by auto
  qed
qed

lemma select_news_filter:
  "select_news fromisoformat now_at i ns = Inr kept \<Longrightarrow>
   map fst kept = map snd (filter (survives_filter fromisoformat now_at) (enumerate i ns))"
proof (induction ns arbitrary: i kept)
  case Nil
  then show ?case by simp
next
  case (Cons a ns)
  from Cons.prems obtain w' rest where
    w': "recency_weight fromisoformat (now_at i) (get_default a ''timestamp'' (JStr [])) = Inr w'"
    and rest: "select_news fromisoformat now_at (Suc i) ns = Inr rest"
    by (auto split: sum.splits)
  show ?case
  proof (cases "w' \<le> 0 \<or> strip (extract_news_text a) = []")
    case True
    then have "kept = rest" using Cons.prems select_news_Cons [OF w' rest] by simp
    moreover have "\<not> survives_filter fromisoformat now_at (i, a)"
      using True w' by (auto simp: survives_filter_def)
    ultimately show ?thesis using Cons.IH [OF rest] by simp
  next
    case False
    then have "kept = (a, w', extract_news_text a) # rest"
      using Cons.prems select_news_Cons [OF w' rest] by simp
    moreover have "survives_filter fromisoformat now_at (i, a)"
      using False w' by (auto simp: survives_filter_def)
    ultimately show ?thesis using Cons.IH [OF rest] by simp
  qed
qed

lemma select_news_subseq:
  "select_news fromisoformat now_at i ns = Inr kept \<Longrightarrow> subseq (map fst kept) ns"
proof -
  assume "select_news fromisoformat now_at i ns = Inr kept"
  then have "map fst kept = map snd (filter (survives_filter fromisoformat now_at) (enumerate i ns))"
    by (rule select_news_filter)
  moreover have "subseq (map snd (filter (survives_filter fromisoformat now_at) (enumerate i ns)))
     (map snd (enumerate i ns))"
    by (intro subseq_map subseq_filter_left)
  ultimately show ?thesis by (simp only: map_snd_enumerate)
qed

lemma select_news_texts:
  "select_news fromisoformat now_at i ns = Inr kept \<Longrightarrow>
   map (snd \<circ> snd) kept = map extract_news_text (map fst kept)"
proof -
  assume s: "select_news fromisoformat now_at i ns = Inr kept"
  have "snd (snd x) = extract_news_text (fst x)" if "x \<in> set kept" for x
    using select_news_kept [OF s, of "fst x" "fst (snd x)" "snd (snd x)"] that by simp
  then show ?thesis by simp
qed

lemma analyze_documents_raise:
  "select_news fromisoformat now_at 0 news_raw = Inl e \<Longrightarrow>
   analyze_documents fromisoformat now_at analyze_batch index_of news_raw =
     \<lparr>batch_calls = [], index_calls = [], outcome = Inl e\<rparr>"
  by (simp add: analyze_documents_def)

lemma analyze_documents_batch_raise:
  "select_news fromisoformat now_at 0 news_raw = Inr kept \<Longrightarrow> kept \<noteq> [] \<Longrightarrow>
   analyze_batch (map (snd \<circ> snd) kept) = Inl e \<Longrightarrow>
   analyze_documents fromisoformat now_at analyze_batch index_of news_raw =
     \<lparr>batch_calls = [map (snd \<circ> snd) kept], index_calls = [], outcome = Inl e\<rparr>"
  by (simp add: analyze_documents_def)

lemma analyze_documents_scored:
  "select_news fromisoformat now_at 0 news_raw = Inr kept \<Longrightarrow>
   (if kept = [] then Inr [] else analyze_batch (map (snd \<circ> snd) kept)) = Inr scores \<Longrightarrow>
   analyze_documents fromisoformat now_at analyze_batch index_of news_raw =
     \<lparr>batch_calls = (if kept = [] then [] else [map (snd \<circ> snd) kept]),
      index_calls =
        [(scores, effective_weights scores (map (fst \<circ> snd) kept) (map (snd \<circ> snd) kept))],
      outcome = Inr
        \<lparr>result_timestamp = now_at (length news_raw),
         result_count = length (news_docs (map fst kept) scores),
         result_documents = news_docs (map fst kept) scores,
         result_nw = nw (index_of scores
           (effective_weights scores (map (fst \<circ> snd) kept) (map (snd \<circ> snd) kept))),
         result_nw_norm = nw_norm (index_of scores
           (effective_weights scores (map (fst \<circ> snd) kept) (map (snd \<circ> snd) kept))),
         result_gsi = gsi (index_of scores
           (effective_weights scores (map (fst \<circ> snd) kept) (map (snd \<circ> snd) kept))),
         result_classification = classification (index_of scores
           (effective_weights scores (map (fst \<circ> snd) kept) (map (snd \<circ> snd) kept)))\<rparr>\<rparr>"
  by (auto simp: analyze_documents_def Let_def split: if_splits)

lemma length_effective_weights:
  "length (effective_weights scores rws texts) =
     min (length scores) (min (length rws) (length texts))"
  by (simp add: effective_weights_def)

lemma length_news_docs:
  "length (news_docs items scores) = min (length items) (length scores)"
  by (simp add: news_docs_def)

lemma doc_id_news_docs:
  "length scores = length items \<Longrightarrow>
   map doc_id (news_docs items scores) = map (\<lambda>n. str (get_default n ''url'' (JStr []))) items"
  by (induction items scores rule: list_induct2') (simp_all add: news_docs_def)

lemma effective_weights_bounds:
  assumes "\<forall>w \<in> set rws. 0 < w \<and> w \<le> 1"
    and "\<forall>s \<in> set scores. 0 \<le> positive s \<and> positive s \<le> 1 \<and> 0 \<le> negative s \<and> negative s \<le> 1"
    and "x \<in> set (effective_weights scores rws texts)"
  shows "0 < x \<and> x \<le> 3"
proof -
  from assms(3) obtain s w t where x: "x = w * impact_weight s t"
    and "(s, w, t) \<in> set (zip scores (zip rws texts))"
    by (auto simp: effective_weights_def)
  then have "s \<in> set scores" "w \<in> set rws"
    by (auto dest: set_zip_leftD set_zip_rightD)
  then have w: "0 < w" "w \<le> 1" and i: "0 < impact_weight s t" "impact_weight s t \<le> 3"
    using assms(1,2) impact_weight_pos [of s t] impact_weight_le_3 [of s t] by auto
  have "w * impact_weight s t \<le> 1 * 3"
    using w i by (intro mult_mono) auto
  then show ?thesis using w i x by simp
qed

subsection \<open>Concrete runs\<close>

lemma select_fed:
  "select_news sample_fromisoformat noon 0 [fed_article] =
     Inr [(fed_article, 1, ''Fed signals rate cut'')]"
  by (simp add: eval_env Let_def)

lemma select_fed_undated:
  "select_news sample_fromisoformat noon 0 [fed_article, undated_article] =
     Inr [(fed_article, 1, ''Fed signals rate cut'')]"
  by (simp add: eval_env Let_def)

lemma select_fed_twice:
  "select_news sample_fromisoformat noon 0 [fed_article, fed_article] =
     Inr [(fed_article, 1, ''Fed signals rate cut''), (fed_article, 1, ''Fed signals rate cut'')]"
  by (simp add: eval_env Let_def)

lemma run_fed_undated:
  "batch_calls (analyze_documents sample_fromisoformat noon bullish_batch index_of
     [fed_article, undated_article]) = [[''Fed signals rate cut'']]"
  by (simp add: analyze_documents_def select_fed_undated bullish_batch_def Let_def del: select_news.simps)

lemma run_silent:
  "analyze_documents sample_fromisoformat noon silent_batch index_of [fed_article] =
     \<lparr>batch_calls = [[''Fed signals rate cut'']],
      index_calls = [([], [])],
      outcome = Inr
        \<lparr>result_timestamp = noon 1, result_count = 0, result_documents = [],
         result_nw = nw (index_of [] []), result_nw_norm = nw_norm (index_of [] []),
         result_gsi = gsi (index_of [] []),
         result_classification = classification (index_of [] [])\<rparr>\<rparr>"
  by (simp add: analyze_documents_def select_fed silent_batch_def effective_weights_def
      news_docs_def Let_def del: select_news.simps)

lemma run_eager:
  "index_calls (analyze_documents sample_fromisoformat noon eager_batch index_of [fed_article]) =
     [([\<lparr>positive = 1, negative = 0, neutral = 0\<rparr>, \<lparr>positive = 1, negative = 0, neutral = 0\<rparr>],
       [3])]"
  by (simp add: analyze_documents_def select_fed eager_batch_def effective_weights_def
      fed_impact Let_def del: select_news.simps)

lemma run_fed_twice:
  "analyze_documents sample_fromisoformat noon bullish_batch (compute_index 0)
     [fed_article, fed_article] =
     \<lparr>batch_calls = [[''Fed signals rate cut'', ''Fed signals rate cut'']],
      index_calls =
        [([\<lparr>positive = 1, negative = 0, neutral = 0\<rparr>,
           \<lparr>positive = 1, negative = 0, neutral = 0\<rparr>], [3, 3])],
      outcome = Inr
        \<lparr>result_timestamp = noon 2, result_count = 2,
         result_documents =
           [\<lparr>doc_source = ''news'', doc_id = ''https://example.org/fed'',
             doc_timestamp = ''2024-01-01T00:00:00Z'', doc_text = ''Fed signals rate cut'',
             doc_sentiment = \<lparr>positive = 1, negative = 0, neutral = 0\<rparr>\<rparr>,
            \<lparr>doc_source = ''news'', doc_id = ''https://example.org/fed'',
             doc_timestamp = ''2024-01-01T00:00:00Z'', doc_text = ''Fed signals rate cut'',
             doc_sentiment = \<lparr>positive = 1, negative = 0, neutral = 0\<rparr>\<rparr>],
         result_nw = 6, result_nw_norm = 100, result_gsi = 100,
         result_classification = ''Extremely Bullish''\<rparr>\<rparr>"
  by (simp add: analyze_documents_def select_fed_twice bullish_batch_def effective_weights_def
      news_docs_def fed_impact fed_url fed_timestamp fed_text compute_index_def classify_def
      noon_def
      Let_def del: select_news.simps)

lemma run_fed:
  "index_calls (analyze_documents sample_fromisoformat noon bullish_batch index_of [fed_article]) =
     [([\<lparr>positive = 1, negative = 0, neutral = 0\<rparr>], [3])]"
  by (simp add: analyze_documents_def select_fed bullish_batch_def effective_weights_def
      fed_impact Let_def del: select_news.simps)

lemma old_timestamp:
  "get_default old_article ''timestamp'' (JStr []) = JStr ''2023-12-22T00:00:00Z''"
  by (simp add: get_default_def old_article_def)

lemma old_url: "get_default old_article ''url'' (JStr []) = JStr ''https://example.org/powell''"
  by (simp add: get_default_def old_article_def)

lemma old_text: "extract_news_text old_article = ''Powell warns of recession''"
  by (simp add: extract_news_text_def get_or_empty_def old_article_def)

lemma old_strip: "strip ''Powell warns of recession'' = ''Powell warns of recession''"
  by (simp add: strip_def isspace_def)

lemma old_parse:
  "sample_fromisoformat (replace_Z ''2023-12-22T00:00:00Z'') = Some (Aware 1703203200000000)"
  by (simp add: replace_Z_def sample_fromisoformat_def)

lemma old_recency:
  "recency_weight sample_fromisoformat (noon i) (JStr ''2023-12-22T00:00:00Z'') = Inr 0.3"
  by (simp add: recency_weight_def old_parse noon_def age_days_def decay_def)

lemma old_impact:
  "impact_weight \<lparr>positive = 1, negative = 0, neutral = 0\<rparr> ''Powell warns of recession'' = 3"
  by (simp add: impact_weight_def eval_chars HIGH_IMPACT_KEYWORDS_def)

lemmas eval_old = old_timestamp old_url old_text old_strip old_recency old_impact

lemma select_fed_undated_old:
  "select_news sample_fromisoformat noon 0 [fed_article, undated_article, old_article] =
     Inr [(fed_article, 1, ''Fed signals rate cut''),
          (old_article, 0.3, ''Powell warns of recession'')]"
  by (simp add: eval_env eval_old Let_def)

lemma select_news_recency:
  "select_news fromisoformat now_at i ns = Inr kept \<Longrightarrow>
   list_all2
     (\<lambda>(n, w, t) (j, n').
        n' = n \<and>
        recency_weight fromisoformat (now_at j) (get_default n ''timestamp'' (JStr [])) = Inr w \<and>
        t = extract_news_text n)
     kept (filter (survives_filter fromisoformat now_at) (enumerate i ns))"
proof (induction ns arbitrary: i kept)
  case Nil
  then show ?case by simp
next
  case (Cons a ns)
  from Cons.prems obtain w' rest where
    w': "recency_weight fromisoformat (now_at i) (get_default a ''timestamp'' (JStr [])) = Inr w'"
    and rest: "select_news fromisoformat now_at (Suc i) ns = Inr rest"
    by (auto split: sum.splits)
  show ?case
  proof (cases "w' \<le> 0 \<or> strip (extract_news_text a) = []")
    case True
    then have "kept = rest" using Cons.prems select_news_Cons [OF w' rest] by simp
    moreover have "\<not> survives_filter fromisoformat now_at (i, a)"
      using True w' by (auto simp: survives_filter_def)
    ultimately show ?thesis using Cons.IH [OF rest] by simp
  next
    case False
    then have "kept = (a, w', extract_news_text a) # rest"
      using Cons.prems select_news_Cons [OF w' rest] by simp
    moreover have "survives_filter fromisoformat now_at (i, a)"
      using False w' by (auto simp: survives_filter_def)
    ultimately show ?thesis using Cons.IH [OF rest] w' by simp
  qed
qed

lemma effective_weights_zip_kept:
  "effective_weights scores (map (fst \<circ> snd) kept) (map (snd \<circ> snd) kept) =
     map (\<lambda>((n, w, t), s). w * impact_weight s t) (zip kept scores)"
  unfolding effective_weights_def comp_def
proof (induction kept arbitrary: scores)
  case Nil
  show ?case by simp
next
  case (Cons k kept)
  show ?case using Cons.IH by (cases scores) (simp_all add: split_beta)
qed

lemma recency_at_old:
  "recency_weight sample_fromisoformat (noon 2)
     (get_default old_article ''timestamp'' (JStr [])) = Inr 0.3"
  by (simp add: old_timestamp old_recency)

lemma zip_take_left: "zip (take (length ys) xs) ys = zip xs ys"
  by (induction xs ys rule: list_induct2') auto

lemma news_docs_take:
  "news_docs (take (length scores) items) scores = news_docs items scores"
  by (simp add: news_docs_def zip_take_left)

section \<open>The classifier of the dashboard\<close>

text \<open>
  C1: \<^verbatim>\<open>classifyGsi\<close> is defined on all of [0, 100], takes exactly the five labels
  there, and maps by lower-inclusive bands: [0, 25) to Extremely Bearish, [25, 45) to
  Bearish, [45, 55) to Neutral, [55, 75) to Bullish and [75, 100] to Extremely Bullish;
  so 25, 45, 55, 75 map to Bearish, Neutral, Bullish, Extremely Bullish, and 100 to
  Extremely Bullish.
\<close>

theorem classifyGsi_bands:
  "(0 \<le> g \<and> g < 25 \<longrightarrow> classifyGsi g = ''Extremely Bearish'') \<and>
   (25 \<le> g \<and> g < 45 \<longrightarrow> classifyGsi g = ''Bearish'') \<and>
   (45 \<le> g \<and> g < 55 \<longrightarrow> classifyGsi g = ''Neutral'') \<and>
   (55 \<le> g \<and> g < 75 \<longrightarrow> classifyGsi g = ''Bullish'') \<and>
   (75 \<le> g \<and> g \<le> 100 \<longrightarrow> classifyGsi g = ''Extremely Bullish'') \<and>
   classifyGsi 25 = ''Bearish'' \<and> classifyGsi 45 = ''Neutral'' \<and>
   classifyGsi 55 = ''Bullish'' \<and> classifyGsi 75 = ''Extremely Bullish'' \<and>
   classifyGsi 100 = ''Extremely Bullish'' \<and>
   classifyGsi ` {0..100} =
     {''Extremely Bearish'', ''Bearish'', ''Neutral'', ''Bullish'', ''Extremely Bullish''}"
proof -
  have bands: "classifyGsi 0 = ''Extremely Bearish''" "classifyGsi 25 = ''Bearish''"
    "classifyGsi 45 = ''Neutral''" "classifyGsi 55 = ''Bullish''"
    "classifyGsi 75 = ''Extremely Bullish''" "classifyGsi 100 = ''Extremely Bullish''"
    by (simp_all add: classifyGsi_def)
  have sub: "classifyGsi ` {0..100} \<subseteq>
     {''Extremely Bearish'', ''Bearish'', ''Neutral'', ''Bullish'', ''Extremely Bullish''}"
    unfolding classifyGsi_def by (rule image_subsetI) simp
  have "''Extremely Bearish'' \<in> classifyGsi ` {0..100}"
    using bands(1) by (metis atLeastAtMost_iff image_eqI order_refl zero_le_numeral)
  moreover have "''Bearish'' \<in> classifyGsi ` {0..100}"
    by (rule image_eqI [where x = 25]) (simp_all add: bands)
  moreover have "''Neutral'' \<in> classifyGsi ` {0..100}"
    by (rule image_eqI [where x = 45]) (simp_all add: bands)
  moreover have "''Bullish'' \<in> classifyGsi ` {0..100}"
    by (rule image_eqI [where x = 55]) (simp_all add: bands)
  moreover have "''Extremely Bullish'' \<in> classifyGsi ` {0..100}"
    by (rule image_eqI [where x = 75]) (simp_all add: bands)
  ultimately have sup: "{''Extremely Bearish'', ''Bearish'', ''Neutral'', ''Bullish'',
      ''Extremely Bullish''} \<subseteq> classifyGsi ` {0..100}"
    by blast
  have img: "classifyGsi ` {0..100} =
     {''Extremely Bearish'', ''Bearish'', ''Neutral'', ''Bullish'', ''Extremely Bullish''}"
    using sub sup by (rule subset_antisym)
  have b1: "0 \<le> g \<and> g < 25 \<longrightarrow> classifyGsi g = ''Extremely Bearish''"
    by (simp add: classifyGsi_def)
  have b2: "25 \<le> g \<and> g < 45 \<longrightarrow> classifyGsi g = ''Bearish''"
    by (simp add: classifyGsi_def)
  have b3: "45 \<le> g \<and> g < 55 \<longrightarrow> classifyGsi g = ''Neutral''"
    by (simp add: classifyGsi_def)
  have b4: "55 \<le> g \<and> g < 75 \<longrightarrow> classifyGsi g = ''Bullish''"
    by (simp add: classifyGsi_def)
  have b5: "75 \<le> g \<and> g \<le> 100 \<longrightarrow> classifyGsi g = ''Extremely Bullish''"
    by (simp add: classifyGsi_def)
  show ?thesis
    using b1 b2 b3 b4 b5 bands(2-6) img by blast
qed

theorem classifyGsi_bands_witness:
  "classifyGsi 30 = ''Bearish'' \<and> classifyGsi 25 = ''Bearish'' \<and>
   classifyGsi 100 = ''Extremely Bullish''"
  using classifyGsi_bands [of 30] by simp

text \<open>
  C6 asks that the band legend and \<^verbatim>\<open>classifyGsi\<close> agree label for label. The
  ranges agree, but the legend prints Extreme Bearish and Extreme Bullish where
  \<^verbatim>\<open>classifyGsi\<close> (and the classifier of the specification) says Extremely Bearish
  and Extremely Bullish.
\<close>

theorem band_legend_labels_differ:
  "map fst band_legend =
     [''Extreme Bearish'', ''Bearish'', ''Neutral'', ''Bullish'', ''Extreme Bullish''] \<and>
   map (classifyGsi \<circ> fst \<circ> snd) band_legend =
     [''Extremely Bearish'', ''Bearish'', ''Neutral'', ''Bullish'', ''Extremely Bullish''] \<and>
   map fst band_legend \<noteq> map (classifyGsi \<circ> fst \<circ> snd) band_legend \<and>
   map snd band_legend = [(0, 25), (25, 45), (45, 55), (55, 75), (75, 100)]"
  by (simp add: band_legend_def classifyGsi_def)

section \<open>The recency weight\<close>

text \<open>
  C3 asks that every parsable timestamp gets a weight computed from its age. A
  timestamp without an offset parses to a naive value, and the subtraction from the
  aware clock reading, which stands outside the \<^verbatim>\<open>try\<close>, raises: at
  \<^verbatim>\<open>"2024-01-01T00:00:00"\<close> the function returns no weight. (For missing,
  unparsable and aware timestamps the weight is as \<open>recency_weight_missing\<close>,
  \<open>recency_weight_unparsable\<close> and \<open>recency_weight_aware\<close> say.)
\<close>

theorem recency_weight_naive_raises:
  "recency_weight sample_fromisoformat (noon 0) (JStr ''2024-01-01T00:00:00'') = Inl TypeError"
  by (simp add: recency_weight_def replace_Z_def sample_fromisoformat_def)

text \<open>
  C9 as stated fails: at an age of exactly one day the weight is 1.0, not 0.8.
\<close>

theorem recency_weight_one_day_counterexample:
  "recency_weight sample_fromisoformat (1704067200000000 + day) (JStr ''2024-01-01T00:00:00Z'')
     = Inr 1 \<and>
   recency_weight sample_fromisoformat (1704067200000000 + day) (JStr ''2024-01-01T00:00:00Z'')
     \<noteq> Inr 0.8"
  by (simp add: recency_weight_def fed_parse day_def age_days_def decay_def)

text \<open>
  C9, amended: for a timestamp with an offset the decay intervals are half-open with the
  larger bound inclusive, [0, 1] to 1.0, (1, 3] to 0.8, (3, 7] to 0.6, (7, 14] to 0.3,
  (14, 30] to 0.1 and (30, infinity) to 0.0; so an age of exactly 1, 3, 7, 14 and 30 days
  yields 1.0, 0.8, 0.6, 0.3 and 0.1.
\<close>

theorem recency_weight_upper_inclusive:
  assumes "truthy ts" and "fromisoformat (replace_Z (str ts)) = Some (Aware t)"
  shows "recency_weight fromisoformat (t + 1 * day) ts = Inr 1 \<and>
         recency_weight fromisoformat (t + 3 * day) ts = Inr 0.8 \<and>
         recency_weight fromisoformat (t + 7 * day) ts = Inr 0.6 \<and>
         recency_weight fromisoformat (t + 14 * day) ts = Inr 0.3 \<and>
         recency_weight fromisoformat (t + 30 * day) ts = Inr 0.1 \<and>
         (age_days now t \<le> 1 \<longrightarrow> recency_weight fromisoformat now ts = Inr 1) \<and>
         (1 < age_days now t \<and> age_days now t \<le> 3 \<longrightarrow>
            recency_weight fromisoformat now ts = Inr 0.8) \<and>
         (3 < age_days now t \<and> age_days now t \<le> 7 \<longrightarrow>
            recency_weight fromisoformat now ts = Inr 0.6) \<and>
         (7 < age_days now t \<and> age_days now t \<le> 14 \<longrightarrow>
            recency_weight fromisoformat now ts = Inr 0.3) \<and>
         (14 < age_days now t \<and> age_days now t \<le> 30 \<longrightarrow>
            recency_weight fromisoformat now ts = Inr 0.1) \<and>
         (30 < age_days now t \<longrightarrow> recency_weight fromisoformat now ts = Inr 0)"
proof -
  have w: "recency_weight fromisoformat n ts = Inr (decay (age_days n t))" for n
    using assms by (rule recency_weight_aware)
  have a: "age_days (t + k * day) t = real_of_int k" if "0 \<le> k" for k
    using that by (simp add: age_days_def day_def)
  have "decay 1 = 1" "decay 3 = 0.8" "decay 7 = 0.6" "decay 14 = 0.3" "decay 30 = 0.1"
    by (simp_all add: decay_def)
  then have exact:
    "recency_weight fromisoformat (t + 1 * day) ts = Inr 1"
    "recency_weight fromisoformat (t + 3 * day) ts = Inr 0.8"
    "recency_weight fromisoformat (t + 7 * day) ts = Inr 0.6"
    "recency_weight fromisoformat (t + 14 * day) ts = Inr 0.3"
    "recency_weight fromisoformat (t + 30 * day) ts = Inr 0.1"
    using a [of 1] a [of 3] a [of 7] a [of 14] a [of 30] by (simp_all add: w)
  have bands:
    "age_days now t \<le> 1 \<longrightarrow> recency_weight fromisoformat now ts = Inr 1"
    "1 < age_days now t \<and> age_days now t \<le> 3 \<longrightarrow>
       recency_weight fromisoformat now ts = Inr 0.8"
    "3 < age_days now t \<and> age_days now t \<le> 7 \<longrightarrow>
       recency_weight fromisoformat now ts = Inr 0.6"
    "7 < age_days now t \<and> age_days now t \<le> 14 \<longrightarrow>
       recency_weight fromisoformat now ts = Inr 0.3"
    "14 < age_days now t \<and> age_days now t \<le> 30 \<longrightarrow>
       recency_weight fromisoformat now ts = Inr 0.1"
    "30 < age_days now t \<longrightarrow> recency_weight fromisoformat now ts = Inr 0"
    by (simp_all add: w decay_def)
  show ?thesis using exact bands by blast
qed

theorem recency_weight_upper_inclusive_witness:
  "truthy (JStr ''2024-01-01T00:00:00Z'') \<and>
   sample_fromisoformat (replace_Z (str (JStr ''2024-01-01T00:00:00Z''))) =
     Some (Aware 1704067200000000) \<and>
   recency_weight sample_fromisoformat (1704067200000000 + 1 * day)
     (JStr ''2024-01-01T00:00:00Z'') = Inr 1 \<and>
   recency_weight sample_fromisoformat (1704067200000000 + 30 * day)
     (JStr ''2024-01-01T00:00:00Z'') = Inr 0.1"
proof -
  have h1: "truthy (JStr ''2024-01-01T00:00:00Z'')" by simp
  have h2: "sample_fromisoformat (replace_Z (str (JStr ''2024-01-01T00:00:00Z''))) =
     Some (Aware 1704067200000000)"
    by (simp add: fed_parse)
  show ?thesis
    using h1 h2
      recency_weight_upper_inclusive [of "JStr ''2024-01-01T00:00:00Z''" sample_fromisoformat
        1704067200000000, OF h1 h2]
    by simp
qed

section \<open>The impact weight\<close>

text \<open>
  C4: for every score and text, \<^verbatim>\<open>_impact_weight\<close> is
  max(|positive - negative|, 0.001) to the power 1.5, times 3 if the lower-cased text
  contains a keyword of the list as a substring and times 1 otherwise; so it is strictly
  positive, also when positive equals negative.
\<close>

theorem impact_weight_formula:
  "impact_weight score text =
     (max \<bar>positive score - negative score\<bar> 0.001) powr 1.5 *
     (if \<exists>k \<in> set HIGH_IMPACT_KEYWORDS. \<exists>pre post. lower text = pre @ k @ post
      then 3 else 1) \<and>
   0 < impact_weight score text"
proof -
  have "list_ex (\<lambda>k. str_in k (lower text)) HIGH_IMPACT_KEYWORDS \<longleftrightarrow>
        (\<exists>k \<in> set HIGH_IMPACT_KEYWORDS. \<exists>pre post. lower text = pre @ k @ post)"
    by (simp add: list_ex_iff str_in_sublist sublist_def)
  then show ?thesis
    using impact_weight_pos [of score "text"] by (simp add: impact_weight_def Let_def)
qed

theorem impact_weight_formula_witness:
  "impact_weight \<lparr>positive = 1 / 2, negative = 1 / 2, neutral = 0\<rparr> ''Fed signals rate cut'' =
     (1 / 1000) powr (3 / 2) * 3 \<and>
   0 < impact_weight \<lparr>positive = 1 / 2, negative = 1 / 2, neutral = 0\<rparr> ''Fed signals rate cut''"
proof -
  have "str_in ''fed'' (lower ''Fed signals rate cut'')"
    by (simp add: eval_chars)
  then have "\<exists>k \<in> set HIGH_IMPACT_KEYWORDS. \<exists>pre post. lower ''Fed signals rate cut'' = pre @ k @ post"
    unfolding str_in_sublist sublist_def HIGH_IMPACT_KEYWORDS_def by fastforce
  then show ?thesis
    using impact_weight_formula
      [of "\<lparr>positive = 1 / 2, negative = 1 / 2, neutral = 0\<rparr>" "''Fed signals rate cut''"]
    by simp
qed

section \<open>The neutral default\<close>

text \<open>
  C2: \<open>compute_index\<close> returns the neutral default (nw 0, nw_norm 50, gsi 50,
  Neutral) through its explicit branch for the empty lists, for any empty input, for a
  total weight within the tolerance of zero and for weights that are all zero; and a run
  of \<^verbatim>\<open>analyze_documents\<close> in which no record survives the filter calls it with the
  empty lists and returns that default.
\<close>

theorem compute_index_neutral_default:
  "compute_index tol [] [] = \<lparr>nw = 0, nw_norm = 50, gsi = 50, classification = ''Neutral''\<rparr> \<and>
   (scores = [] \<or> weights = [] \<or> \<bar>sum_list (map snd (zip scores weights))\<bar> \<le> tol \<longrightarrow>
      compute_index tol scores weights =
        \<lparr>nw = 0, nw_norm = 50, gsi = 50, classification = ''Neutral''\<rparr>) \<and>
   (0 \<le> tol \<and> list_all (\<lambda>w. w = 0) weights \<longrightarrow>
      compute_index tol scores weights =
        \<lparr>nw = 0, nw_norm = 50, gsi = 50, classification = ''Neutral''\<rparr>) \<and>
   (select_news fromisoformat now_at 0 news_raw = Inr [] \<longrightarrow>
      batch_calls (analyze_documents fromisoformat now_at analyze_batch (compute_index tol) news_raw) = [] \<and>
      index_calls (analyze_documents fromisoformat now_at analyze_batch (compute_index tol) news_raw) = [([], [])] \<and>
      outcome (analyze_documents fromisoformat now_at analyze_batch (compute_index tol) news_raw) =
        Inr \<lparr>result_timestamp = now_at (length news_raw), result_count = 0,
             result_documents = [], result_nw = 0, result_nw_norm = 50, result_gsi = 50,
             result_classification = ''Neutral''\<rparr>)"
proof -
  let ?neutral = "\<lparr>nw = 0, nw_norm = 50, gsi = 50, classification = ''Neutral''\<rparr>"
  have empty: "compute_index tol [] [] = ?neutral"
    by (simp add: compute_index_def)
  have branch: "compute_index tol scores weights = ?neutral"
    if "scores = [] \<or> weights = [] \<or> \<bar>sum_list (map snd (zip scores weights))\<bar> \<le> tol"
    using that by (auto simp: compute_index_def Let_def foldl_total)
  have zero: "compute_index tol scores weights = ?neutral"
    if "0 \<le> tol" and z: "list_all (\<lambda>w. w = 0) weights"
  proof -
    have "\<forall>p \<in> set (zip scores weights). snd p = 0"
      using z by (auto simp: list_all_iff dest: set_zip_rightD)
    moreover have "sum_list (map snd ps) = 0" if "\<forall>p \<in> set ps. snd p = 0"
      for ps :: "(SentimentScores \<times> real) list"
      using that by (induction ps) auto
    ultimately have "sum_list (map snd (zip scores weights)) = 0"
      by blast
    with \<open>0 \<le> tol\<close> show ?thesis by (simp add: branch)
  qed
  have run: "batch_calls (analyze_documents fromisoformat now_at analyze_batch (compute_index tol) news_raw) = [] \<and>
      index_calls (analyze_documents fromisoformat now_at analyze_batch (compute_index tol) news_raw) = [([], [])] \<and>
      outcome (analyze_documents fromisoformat now_at analyze_batch (compute_index tol) news_raw) =
        Inr \<lparr>result_timestamp = now_at (length news_raw), result_count = 0,
             result_documents = [], result_nw = 0, result_nw_norm = 50, result_gsi = 50,
             result_classification = ''Neutral''\<rparr>"
    if "select_news fromisoformat now_at 0 news_raw = Inr []"
    using that by (simp add: analyze_documents_def effective_weights_def news_docs_def empty)
  show ?thesis using empty branch zero run by blast
qed

theorem compute_index_neutral_default_witness:
  "\<bar>sum_list (map snd (zip [\<lparr>positive = 1, negative = 0, neutral = 0\<rparr>] [0::real]))\<bar> \<le> 0 \<and>
   compute_index 0 [\<lparr>positive = 1, negative = 0, neutral = 0\<rparr>] [0] =
     \<lparr>nw = 0, nw_norm = 50, gsi = 50, classification = ''Neutral''\<rparr> \<and>
   select_news sample_fromisoformat noon 0 [undated_article] = Inr [] \<and>
   outcome (analyze_documents sample_fromisoformat noon bullish_batch (compute_index 0)
     [undated_article]) =
     Inr \<lparr>result_timestamp = noon 1, result_count = 0,
          result_documents = [], result_nw = 0, result_nw_norm = 50, result_gsi = 50,
          result_classification = ''Neutral''\<rparr>"
proof -
  have s: "select_news sample_fromisoformat noon 0 [undated_article] = Inr []"
    by (simp add: eval_env)
  show ?thesis
    using s compute_index_neutral_default
      [of 0 "[\<lparr>positive = 1, negative = 0, neutral = 0\<rparr>]" "[0]" sample_fromisoformat noon
        "[undated_article]" bullish_batch]
    by simp
qed

section \<open>The filter and the classifier call\<close>

text \<open>
  C5: every record whose recency weight is not strictly positive, or whose extracted
  text is empty, is left out before scoring: the records kept are exactly those that pass
  the filter, in order, each with its extracted text, which is not blank. The classifier
  is called at most once per run, with exactly the texts of the kept records, and not at
  all when none is kept or when the loop raised.
\<close>

theorem classifier_called_once_on_filtered_texts:
  "length (batch_calls (analyze_documents fromisoformat now_at analyze_batch index_of news_raw)) \<le> 1 \<and>
   (\<forall>e. select_news fromisoformat now_at 0 news_raw = Inl e \<longrightarrow>
      batch_calls (analyze_documents fromisoformat now_at analyze_batch index_of news_raw) = []) \<and>
   (\<forall>kept. select_news fromisoformat now_at 0 news_raw = Inr kept \<longrightarrow>
      batch_calls (analyze_documents fromisoformat now_at analyze_batch index_of news_raw) =
        (if kept = [] then [] else [map (snd \<circ> snd) kept]) \<and>
      map fst kept =
        map snd (filter (survives_filter fromisoformat now_at) (enumerate 0 news_raw)) \<and>
      map (snd \<circ> snd) kept = map extract_news_text (map fst kept) \<and>
      list_all (\<lambda>t. t \<noteq> [] \<and> strip t \<noteq> []) (map (snd \<circ> snd) kept)) \<and>
   (\<forall>j n. (\<exists>w. recency_weight fromisoformat (now_at j) (get_default n ''timestamp'' (JStr []))
               = Inr w \<and> w \<le> 0) \<or> extract_news_text n = [] \<longrightarrow>
      \<not> survives_filter fromisoformat now_at (j, n))"
proof -
  let ?R = "analyze_documents fromisoformat now_at analyze_batch index_of news_raw"
  have raised: "batch_calls ?R = []"
    if "select_news fromisoformat now_at 0 news_raw = Inl e" for e
    using that by (simp add: analyze_documents_raise)
  have calls: "batch_calls ?R = (if kept = [] then [] else [map (snd \<circ> snd) kept])"
    if "select_news fromisoformat now_at 0 news_raw = Inr kept" for kept
    using that by (auto simp: analyze_documents_def Let_def split: sum.splits)
  have texts: "list_all (\<lambda>t. t \<noteq> [] \<and> strip t \<noteq> []) (map (snd \<circ> snd) kept)"
    if s: "select_news fromisoformat now_at 0 news_raw = Inr kept" for kept
  proof -
    have "snd (snd x) \<noteq> [] \<and> strip (snd (snd x)) \<noteq> []" if "x \<in> set kept" for x
      using select_news_kept [OF s, of "fst x" "fst (snd x)" "snd (snd x)"] that strip_Nil
      by auto
    then show ?thesis by (simp add: list_all_iff)
  qed
  have once: "length (batch_calls ?R) \<le> 1"
  proof (cases "select_news fromisoformat now_at 0 news_raw")
    case (Inl e)
    then show ?thesis by (simp add: raised)
  next
    case (Inr kept)
    then show ?thesis by (simp add: calls)
  qed
  have excluded: "\<not> survives_filter fromisoformat now_at (j, n)"
    if "(\<exists>w. recency_weight fromisoformat (now_at j) (get_default n ''timestamp'' (JStr []))
               = Inr w \<and> w \<le> 0) \<or> extract_news_text n = []" for j n
    using that strip_Nil by (auto simp: survives_filter_def)
  show ?thesis
    using once raised calls texts excluded select_news_filter select_news_texts by blast
qed

theorem classifier_called_once_on_filtered_texts_witness:
  "select_news sample_fromisoformat noon 0 [fed_article, undated_article] =
     Inr [(fed_article, 1, ''Fed signals rate cut'')] \<and>
   batch_calls (analyze_documents sample_fromisoformat noon bullish_batch (compute_index 0)
     [fed_article, undated_article]) = [[''Fed signals rate cut'']] \<and>
   recency_weight sample_fromisoformat (noon 1)
     (get_default undated_article ''timestamp'' (JStr [])) = Inr 0 \<and>
   \<not> survives_filter sample_fromisoformat noon (1, undated_article)"
proof -
  have r: "recency_weight sample_fromisoformat (noon 1)
     (get_default undated_article ''timestamp'' (JStr [])) = Inr 0"
    by (simp add: eval_env)
  show ?thesis
    using select_fed_undated r
      classifier_called_once_on_filtered_texts
        [of sample_fromisoformat noon bullish_batch "compute_index 0"
          "[fed_article, undated_article]"]
    by auto
qed

text \<open>
  C7 as stated fails: a classifier that returns no score for the one filtered text does
  not fail the run, and an index is computed from none of the filtered documents; a
  classifier that returns two scores for it makes \<^verbatim>\<open>compute_index\<close> receive two
  scores and one weight.
\<close>

theorem classifier_answer_unchecked_counterexample:
  "batch_calls (analyze_documents sample_fromisoformat noon silent_batch (compute_index 0)
     [fed_article]) = [[''Fed signals rate cut'']] \<and>
   silent_batch [''Fed signals rate cut''] = Inr [] \<and>
   index_calls (analyze_documents sample_fromisoformat noon silent_batch (compute_index 0)
     [fed_article]) = [([], [])] \<and>
   \<not> isl (outcome (analyze_documents sample_fromisoformat noon silent_batch (compute_index 0)
     [fed_article])) \<and>
   index_calls (analyze_documents sample_fromisoformat noon eager_batch (compute_index 0)
     [fed_article]) =
     [([\<lparr>positive = 1, negative = 0, neutral = 0\<rparr>, \<lparr>positive = 1, negative = 0, neutral = 0\<rparr>],
       [3])]"
  by (simp add: run_silent run_eager silent_batch_def)

text \<open>
  C7, amended: \<^verbatim>\<open>analyze_documents\<close> does not check the classifier's answer. If
  the classifier raises, the run fails and \<^verbatim>\<open>compute_index\<close> is not called. If it
  returns n scores for the m filtered texts, \<^verbatim>\<open>compute_index\<close> is called once,
  with all n scores and with the weights of the first min(n, m) filtered records; so the
  lengths of scores and weights agree exactly when n is at most m, and every filtered
  record is weighted exactly when n is at least m. When n is at most m the call is
  within the contract of \<^verbatim>\<open>compute_index\<close> and the run returns a result that lists
  the first n filtered records. What happens after the call when n exceeds m is left to
  \<^verbatim>\<open>compute_index\<close>.
\<close>

theorem classifier_answer_unchecked:
  assumes "select_news fromisoformat now_at 0 news_raw = Inr kept" and "kept \<noteq> []"
  shows
    "(\<forall>e. analyze_batch (map (snd \<circ> snd) kept) = Inl e \<longrightarrow>
        outcome (analyze_documents fromisoformat now_at analyze_batch index_of news_raw) = Inl e \<and>
        index_calls (analyze_documents fromisoformat now_at analyze_batch index_of news_raw) = []) \<and>
     (\<forall>scores. analyze_batch (map (snd \<circ> snd) kept) = Inr scores \<longrightarrow>
        index_calls (analyze_documents fromisoformat now_at analyze_batch index_of news_raw) =
          [(scores, map (\<lambda>((n, w, t), s). w * impact_weight s t) (zip kept scores))] \<and>
        length (map (\<lambda>((n, w, t), s). w * impact_weight s t) (zip kept scores)) =
          min (length scores) (length kept) \<and>
        (length scores = length (map (\<lambda>((n, w, t), s). w * impact_weight s t) (zip kept scores))
           \<longleftrightarrow> length scores \<le> length kept) \<and>
        (length (map (\<lambda>((n, w, t), s). w * impact_weight s t) (zip kept scores)) = length kept
           \<longleftrightarrow> length kept \<le> length scores) \<and>
        (length scores \<le> length kept \<longrightarrow>
           (\<exists>r. outcome (analyze_documents fromisoformat now_at analyze_batch index_of news_raw)
                  = Inr r \<and>
                result_count r = length scores \<and>
                map doc_id (result_documents r) =
                  map (\<lambda>n. str (get_default n ''url'' (JStr [])))
                    (take (length scores) (map fst kept)))))"
proof -
  let ?R = "analyze_documents fromisoformat now_at analyze_batch index_of news_raw"
  let ?ws = "\<lambda>scores. map (\<lambda>((n, w, t), s). w * impact_weight s t) (zip kept scores)"
  have fails: "outcome ?R = Inl e \<and> index_calls ?R = []"
    if "analyze_batch (map (snd \<circ> snd) kept) = Inl e" for e
    using assms that by (simp add: analyze_documents_batch_raise)
  have goes_on: "index_calls ?R = [(scores, ?ws scores)] \<and>
      length (?ws scores) = min (length scores) (length kept) \<and>
      (length scores = length (?ws scores) \<longleftrightarrow> length scores \<le> length kept) \<and>
      (length (?ws scores) = length kept \<longleftrightarrow> length kept \<le> length scores) \<and>
      (length scores \<le> length kept \<longrightarrow>
         (\<exists>r. outcome ?R = Inr r \<and> result_count r = length scores \<and>
              map doc_id (result_documents r) =
                map (\<lambda>n. str (get_default n ''url'' (JStr [])))
                  (take (length scores) (map fst kept))))"
    if b: "analyze_batch (map (snd \<circ> snd) kept) = Inr scores" for scores
  proof -
    have c: "(if kept = [] then Inr [] else analyze_batch (map (snd \<circ> snd) kept)) = Inr scores"
      using assms(2) b by simp
    note run = analyze_documents_scored
      [where analyze_batch = analyze_batch and index_of = index_of, OF assms(1) c]
    have len: "length (?ws scores) = min (length scores) (length kept)"
      by (simp add: min.commute)
    have calls: "index_calls ?R = [(scores, ?ws scores)]"
      by (simp add: run effective_weights_zip_kept)
    have within: "\<exists>r. outcome ?R = Inr r \<and> result_count r = length scores \<and>
        map doc_id (result_documents r) =
          map (\<lambda>n. str (get_default n ''url'' (JStr []))) (take (length scores) (map fst kept))"
      if le: "length scores \<le> length kept"
    proof -
      have docs: "news_docs (map fst kept) scores =
          news_docs (take (length scores) (map fst kept)) scores"
        by (simp only: news_docs_take)
      have "map doc_id (news_docs (take (length scores) (map fst kept)) scores) =
          map (\<lambda>n. str (get_default n ''url'' (JStr []))) (take (length scores) (map fst kept))"
        using le by (intro doc_id_news_docs) simp
      then show ?thesis
        using le docs by (simp add: run length_news_docs)
    qed
    have "length scores = length (?ws scores) \<longleftrightarrow> length scores \<le> length kept"
      using len by auto
    moreover have "length (?ws scores) = length kept \<longleftrightarrow> length kept \<le> length scores"
      using len by auto
    ultimately show ?thesis using len calls within by blast
  qed
  show ?thesis using fails goes_on by blast
qed

theorem classifier_answer_unchecked_witness:
  "select_news sample_fromisoformat noon 0 [fed_article] =
     Inr [(fed_article, 1, ''Fed signals rate cut'')] \<and>
   failing_batch [''Fed signals rate cut''] = Inl ClassifierFailure \<and>
   outcome (analyze_documents sample_fromisoformat noon failing_batch (compute_index 0)
     [fed_article]) = Inl ClassifierFailure \<and>
   index_calls (analyze_documents sample_fromisoformat noon failing_batch (compute_index 0)
     [fed_article]) = [] \<and>
   bullish_batch [''Fed signals rate cut''] = Inr [\<lparr>positive = 1, negative = 0, neutral = 0\<rparr>] \<and>
   index_calls (analyze_documents sample_fromisoformat noon bullish_batch (compute_index 0)
     [fed_article]) = [([\<lparr>positive = 1, negative = 0, neutral = 0\<rparr>], [3])]"
proof -
  have ne: "[(fed_article, 1::real, ''Fed signals rate cut'')] \<noteq> []" by simp
  have f: "failing_batch (map (snd \<circ> snd) [(fed_article, 1::real, ''Fed signals rate cut'')]) =
     Inl ClassifierFailure"
    by (simp add: failing_batch_def)
  have b: "bullish_batch (map (snd \<circ> snd) [(fed_article, 1::real, ''Fed signals rate cut'')]) =
     Inr [\<lparr>positive = 1, negative = 0, neutral = 0\<rparr>]"
    by (simp add: bullish_batch_def)
  note t = classifier_answer_unchecked [OF select_fed ne]
  have raised: "outcome (analyze_documents sample_fromisoformat noon failing_batch
        (compute_index 0) [fed_article]) = Inl ClassifierFailure \<and>
      index_calls (analyze_documents sample_fromisoformat noon failing_batch
        (compute_index 0) [fed_article]) = []"
    using t [where analyze_batch = failing_batch and index_of = "compute_index 0",
        THEN conjunct1, THEN spec, THEN mp, OF f] .
  have scored: "index_calls (analyze_documents sample_fromisoformat noon bullish_batch
        (compute_index 0) [fed_article]) = [([\<lparr>positive = 1, negative = 0, neutral = 0\<rparr>], [3])]"
    using t [where analyze_batch = bullish_batch and index_of = "compute_index 0",
        THEN conjunct2, THEN spec, THEN mp, OF b, THEN conjunct1]
    by (simp add: fed_impact)
  have f': "failing_batch [''Fed signals rate cut''] = Inl ClassifierFailure"
    by (simp add: failing_batch_def)
  have b': "bullish_batch [''Fed signals rate cut''] =
      Inr [\<lparr>positive = 1, negative = 0, neutral = 0\<rparr>]"
    by (simp add: bullish_batch_def)
  show ?thesis
    using select_fed f' raised [THEN conjunct1] raised [THEN conjunct2] b' scored
    by (intro conjI)
qed

section \<open>The weights of the aggregation\<close>

text \<open>
  C8 as stated fails: a snapshot that holds the same record twice (the same id) weights
  it twice, with two effective weights and two output documents.
\<close>

theorem duplicate_records_counterexample:
  "str (get_default fed_article ''url'' (JStr [])) = ''https://example.org/fed'' \<and>
   analyze_documents sample_fromisoformat noon bullish_batch (compute_index 0)
     [fed_article, fed_article] =
     \<lparr>batch_calls = [[''Fed signals rate cut'', ''Fed signals rate cut'']],
      index_calls =
        [([\<lparr>positive = 1, negative = 0, neutral = 0\<rparr>,
           \<lparr>positive = 1, negative = 0, neutral = 0\<rparr>], [3, 3])],
      outcome = Inr
        \<lparr>result_timestamp = noon 2, result_count = 2,
         result_documents =
           [\<lparr>doc_source = ''news'', doc_id = ''https://example.org/fed'',
             doc_timestamp = ''2024-01-01T00:00:00Z'', doc_text = ''Fed signals rate cut'',
             doc_sentiment = \<lparr>positive = 1, negative = 0, neutral = 0\<rparr>\<rparr>,
            \<lparr>doc_source = ''news'', doc_id = ''https://example.org/fed'',
             doc_timestamp = ''2024-01-01T00:00:00Z'', doc_text = ''Fed signals rate cut'',
             doc_sentiment = \<lparr>positive = 1, negative = 0, neutral = 0\<rparr>\<rparr>],
         result_nw = 6, result_nw_norm = 100, result_gsi = 100,
         result_classification = ''Extremely Bullish''\<rparr>\<rparr>"
  by (simp add: run_fed_twice fed_url)

text \<open>
  C8, amended: when the classifier returns one score per filtered text, each record of
  the snapshot is weighted at most once: the weighted records are the records that pass
  the filter, a subsequence of the snapshot in its order, each with the recency weight
  computed when it was processed, its extracted text, one effective weight (that recency
  weight times the impact weight of its score and text) and one output document
  carrying the record's id. Records are not merged by id: records with the same id that
  pass the filter are weighted once each.
\<close>

theorem each_record_weighted_once:
  assumes "select_news fromisoformat now_at 0 news_raw = Inr kept"
    and "(if kept = [] then Inr [] else analyze_batch (map (snd \<circ> snd) kept)) = Inr scores"
    and "length scores = length kept"
  shows
    "subseq (map fst kept) news_raw \<and>
     list_all2
       (\<lambda>(n, w, t) (j, n').
          n' = n \<and>
          recency_weight fromisoformat (now_at j) (get_default n ''timestamp'' (JStr [])) = Inr w \<and>
          t = extract_news_text n)
       kept (filter (survives_filter fromisoformat now_at) (enumerate 0 news_raw)) \<and>
     index_calls (analyze_documents fromisoformat now_at analyze_batch index_of news_raw) =
       [(scores, map (\<lambda>((n, w, t), s). w * impact_weight s t) (zip kept scores))] \<and>
     length (map (\<lambda>((n, w, t), s). w * impact_weight s t) (zip kept scores)) = length kept \<and>
     (\<exists>r. outcome (analyze_documents fromisoformat now_at analyze_batch index_of news_raw) = Inr r \<and>
          result_count r = length kept \<and>
          map doc_id (result_documents r) =
            map (\<lambda>n. str (get_default n ''url'' (JStr []))) (map fst kept))"
proof -
  note run = analyze_documents_scored
    [where analyze_batch = analyze_batch and index_of = index_of, OF assms(1,2)]
  have "subseq (map fst kept) news_raw"
    using assms(1) by (rule select_news_subseq)
  moreover have "list_all2
       (\<lambda>(n, w, t) (j, n').
          n' = n \<and>
          recency_weight fromisoformat (now_at j) (get_default n ''timestamp'' (JStr [])) = Inr w \<and>
          t = extract_news_text n)
       kept (filter (survives_filter fromisoformat now_at) (enumerate 0 news_raw))"
    using assms(1) by (rule select_news_recency)
  moreover have "index_calls (analyze_documents fromisoformat now_at analyze_batch index_of news_raw) =
      [(scores, map (\<lambda>((n, w, t), s). w * impact_weight s t) (zip kept scores))]"
    by (simp add: run effective_weights_zip_kept)
  moreover have "length (map (\<lambda>((n, w, t), s). w * impact_weight s t) (zip kept scores)) =
      length kept"
    using assms(3) by simp
  moreover have "\<exists>r. outcome (analyze_documents fromisoformat now_at analyze_batch index_of news_raw) = Inr r \<and>
      result_count r = length kept \<and>
      map doc_id (result_documents r) =
        map (\<lambda>n. str (get_default n ''url'' (JStr []))) (map fst kept)"
    using assms(3) by (simp add: run length_news_docs doc_id_news_docs)
  ultimately show ?thesis by blast
qed

theorem each_record_weighted_once_witness:
  "select_news sample_fromisoformat noon 0 [fed_article, undated_article, old_article] =
     Inr [(fed_article, 1, ''Fed signals rate cut''),
          (old_article, 0.3, ''Powell warns of recession'')] \<and>
   bullish_batch [''Fed signals rate cut'', ''Powell warns of recession''] =
     Inr [\<lparr>positive = 1, negative = 0, neutral = 0\<rparr>, \<lparr>positive = 1, negative = 0, neutral = 0\<rparr>] \<and>
   recency_weight sample_fromisoformat (noon 2)
     (get_default old_article ''timestamp'' (JStr [])) = Inr 0.3 \<and>
   subseq [fed_article, old_article] [fed_article, undated_article, old_article] \<and>
   index_calls (analyze_documents sample_fromisoformat noon bullish_batch (compute_index 0)
     [fed_article, undated_article, old_article]) =
     [([\<lparr>positive = 1, negative = 0, neutral = 0\<rparr>, \<lparr>positive = 1, negative = 0, neutral = 0\<rparr>],
       [3, 0.9])]"
proof -
  let ?kept = "[(fed_article, 1::real, ''Fed signals rate cut''),
      (old_article, 0.3, ''Powell warns of recession'')]"
  let ?scores = "[\<lparr>positive = 1::real, negative = 0, neutral = 0\<rparr>,
      \<lparr>positive = 1, negative = 0, neutral = 0\<rparr>]"
  have b: "(if ?kept = [] then Inr [] else bullish_batch (map (snd \<circ> snd) ?kept)) = Inr ?scores"
    by (simp add: bullish_batch_def)
  have l: "length ?scores = length ?kept"
    by simp
  note t = each_record_weighted_once
    [where analyze_batch = bullish_batch and index_of = "compute_index 0",
      OF select_fed_undated_old b l]
  have s: "subseq [fed_article, old_article] [fed_article, undated_article, old_article]"
    using t [THEN conjunct1] by simp
  have i: "index_calls (analyze_documents sample_fromisoformat noon bullish_batch
      (compute_index 0) [fed_article, undated_article, old_article]) = [(?scores, [3, 0.9])]"
    using t [THEN conjunct2, THEN conjunct2, THEN conjunct1]
    by (simp add: fed_impact old_impact)
  have c: "bullish_batch [''Fed signals rate cut'', ''Powell warns of recession''] = Inr ?scores"
    by (simp add: bullish_batch_def)
  show ?thesis
    using select_fed_undated_old c recency_at_old s i by (intro conjI)
qed

text \<open>
  C10: for a score with positive and negative in [0, 1] and any text the impact weight
  lies in (0, 3]; and when the classifier returns such scores, every effective weight
  that \<^verbatim>\<open>analyze_documents\<close> passes to \<^verbatim>\<open>compute_index\<close> is strictly positive
  and at most 3.
\<close>

theorem effective_weights_in_range:
  "(0 \<le> positive s \<and> positive s \<le> 1 \<and> 0 \<le> negative s \<and> negative s \<le> 1 \<longrightarrow>
      0 < impact_weight s t \<and> impact_weight s t \<le> 3) \<and>
   ((\<forall>texts scores. analyze_batch texts = Inr scores \<longrightarrow>
       list_all (\<lambda>s. 0 \<le> positive s \<and> positive s \<le> 1 \<and> 0 \<le> negative s \<and> negative s \<le> 1)
         scores) \<longrightarrow>
    list_all (\<lambda>call. list_all (\<lambda>w. 0 < w \<and> w \<le> 3) (snd call))
      (index_calls (analyze_documents fromisoformat now_at analyze_batch index_of news_raw)))"
proof -
  let ?R = "analyze_documents fromisoformat now_at analyze_batch index_of news_raw"
  let ?unit = "\<lambda>s. 0 \<le> positive s \<and> positive s \<le> 1 \<and> 0 \<le> negative s \<and> negative s \<le> 1"
  have impact: "0 < impact_weight s t \<and> impact_weight s t \<le> 3" if "?unit s"
    using that impact_weight_pos [of s t] impact_weight_le_3 [of s t] by simp
  have run: "list_all (\<lambda>call. list_all (\<lambda>w. 0 < w \<and> w \<le> 3) (snd call)) (index_calls ?R)"
    if cl: "\<forall>texts scores. analyze_batch texts = Inr scores \<longrightarrow> list_all ?unit scores"
  proof (cases "select_news fromisoformat now_at 0 news_raw")
    case (Inl e)
    then show ?thesis by (simp add: analyze_documents_raise)
  next
    case (Inr kept)
    have rws: "\<forall>w \<in> set (map (fst \<circ> snd) kept). 0 < w \<and> w \<le> 1"
    proof
      fix w assume "w \<in> set (map (fst \<circ> snd) kept)"
      then obtain x where "x \<in> set kept" and "w = fst (snd x)" by auto
      then show "0 < w \<and> w \<le> 1"
        using select_news_kept [OF Inr, of "fst x" "fst (snd x)" "snd (snd x)"] by simp
    qed
    show ?thesis
    proof (cases "if kept = [] then Inr [] else analyze_batch (map (snd \<circ> snd) kept)")
      case (Inl e)
      then have "kept \<noteq> []" and "analyze_batch (map (snd \<circ> snd) kept) = Inl e"
        by (auto split: if_splits)
      then show ?thesis using Inr by (simp add: analyze_documents_batch_raise)
    next
      case scored: (Inr scores)
      have "list_all ?unit scores"
        using scored cl by (auto split: if_splits)
      then have sc: "\<forall>s \<in> set scores. ?unit s" by (simp add: list_all_iff)
      have "\<forall>x \<in> set (effective_weights scores (map (fst \<circ> snd) kept) (map (snd \<circ> snd) kept)).
          0 < x \<and> x \<le> 3"
        using effective_weights_bounds [OF rws sc] by blast
      then show ?thesis
        by (simp add: analyze_documents_scored
            [where analyze_batch = analyze_batch and index_of = index_of, OF Inr scored]
            list_all_iff)
    qed
  qed
  show ?thesis using impact run by blast
qed

theorem effective_weights_in_range_witness:
  "impact_weight \<lparr>positive = 1, negative = 0, neutral = 0\<rparr> ''Fed signals rate cut'' = 3 \<and>
   index_calls (analyze_documents sample_fromisoformat noon bullish_batch (compute_index 0)
     [fed_article]) = [([\<lparr>positive = 1, negative = 0, neutral = 0\<rparr>], [3])] \<and>
   list_all (\<lambda>call. list_all (\<lambda>w. 0 < w \<and> w \<le> 3) (snd call))
     (index_calls (analyze_documents sample_fromisoformat noon bullish_batch (compute_index 0)
       [fed_article]))"
proof -
  have h: "\<forall>texts scores. bullish_batch texts = Inr scores \<longrightarrow>
     list_all (\<lambda>s. 0 \<le> positive s \<and> positive s \<le> 1 \<and> 0 \<le> negative s \<and> negative s \<le> 1) scores"
    by (auto simp: bullish_batch_def list_all_iff)
  have r: "list_all (\<lambda>call. list_all (\<lambda>w. 0 < w \<and> w \<le> 3) (snd call))
     (index_calls (analyze_documents sample_fromisoformat noon bullish_batch (compute_index 0)
       [fed_article]))"
    using effective_weights_in_range
        [of "\<lparr>positive = 1, negative = 0, neutral = 0\<rparr>" "''Fed signals rate cut''"
          bullish_batch sample_fromisoformat noon "compute_index 0" "[fed_article]",
          THEN conjunct2, THEN mp, OF h] .
  show ?thesis
    using fed_impact run_fed [of "compute_index 0"] r by (intro conjI)
qed

end
